theory Spec2Isabelle
  imports Main
begin

section \<open>The BRIAR service scaffold (lib/python/briar/service.py)\<close>

text \<open>
  The module defines the class \<open>BRIARService\<close>, a gRPC servicer whose constructor reads
  the process environment, two implemented handlers (\<open>get_api_version\<close>, \<open>status\<close>),
  fifteen handlers that raise \<open>NotImplementedError\<close>, and the function \<open>serve\<close> that
  builds a gRPC server around the servicer and then sleeps forever.

  Exceptions are values, printing is recorded, and the process environment the constructor
  reads is an explicit argument.
\<close>

subsection \<open>Exceptions\<close>

text \<open>
  \<open>EnvironmentError\<close> (with its message) and \<open>NotImplementedError\<close> are the two
  exceptions the module raises. \<open>SequenceViolation\<close> and \<open>ResourceExhausted\<close> are
  conditions named by the specification; no path of the module raises them, and they are
  part of the type so that statements about them can be written down.
\<close>

datatype error =
    EnvironmentError string
  | NotImplementedError
  | SequenceViolation
  | ResourceExhausted

subsection \<open>The process environment\<close>

text \<open>
  \<open>environ\<close> is \<open>os.environ\<close>. \<open>directories\<close> is the set of paths that exist as
  directories on the file system of the process; the module never consults it.
\<close>

record world =
  environ :: "string \<rightharpoonup> string"
  directories :: "string set"

subsection \<open>\<open>os.path.join\<close>\<close>

text \<open>
  The POSIX \<open>os.path.join(a, *p)\<close>: a component that starts with the separator replaces
  the path built so far; otherwise it is appended, after a separator unless the path so
  far is empty or already ends with one.
\<close>

definition sep :: char where
  "sep = CHR ''/''"

definition join_component :: "string \<Rightarrow> string \<Rightarrow> string" where
  "join_component path b =
     (if b \<noteq> [] \<and> hd b = sep then b
      else if path = [] \<or> last path = sep then path @ b
      else path @ [sep] @ b)"

definition os_path_join :: "string \<Rightarrow> string list \<Rightarrow> string" where
  "os_path_join a p = foldl join_component a p"

subsection \<open>Messages of \<open>briar_pb2\<close> that the module constructs\<close>

record APIVersion =
  major :: int
  minor :: int
  patch :: int

text \<open>
  Modelled from the spec: the enumeration \<open>BriarServiceStatus\<close> is declared in the
  generated module \<open>briar_pb2\<close>, which is not part of the source at hand; the
  specification gives its values as READY, DEGRADED and UNAVAILABLE. The module itself
  only ever names \<open>READY\<close>.
\<close>

datatype BriarServiceStatus = READY | DEGRADED | UNAVAILABLE

text \<open>
  The field \<open>status\<close> of \<open>StatusReply\<close> is named \<open>status_of\<close>, to keep it apart from
  the handler \<open>status\<close>. The name \<open>briar_pb2\<close> that both implemented handlers use is
  taken to be bound in the module (through \<open>from briar.media_converters import *\<close>).
\<close>

record StatusReply =
  developer_name :: string
  service_name :: string
  version :: APIVersion
  status_of :: BriarServiceStatus

subsection \<open>The outcome of one handler invocation\<close>

text \<open>
  A handler invocation prints lines (\<open>printed\<close>), hands replies back to the caller
  (\<open>replies\<close>: one for a unary reply, one per \<open>yield\<close> for a reply stream) and either
  ends normally (\<open>raised = None\<close>) or with an exception that leaves the handler
  (\<open>raised = Some e\<close>).
\<close>

record 'rep call =
  printed :: "string list"
  replies :: "'rep list"
  raised :: "error option"

definition returns :: "'rep \<Rightarrow> 'rep call" where
  "returns r = \<lparr>printed = [], replies = [r], raised = None\<rparr>"

definition raises :: "error \<Rightarrow> 'rep call" where
  "raises e = \<lparr>printed = [], replies = [], raised = Some e\<rparr>"

definition print_then :: "string \<Rightarrow> 'rep call \<Rightarrow> 'rep call" where
  "print_then line c = c\<lparr>printed := line # printed c\<rparr>"

subsection \<open>The class \<open>BRIARService\<close>\<close>

text \<open>
  \<open>Values\<close> stands for \<open>optparse.Values\<close>, the command line options, as attribute
  names with their values. The instance has exactly the three attributes that
  \<open>__init__\<close> assigns.
\<close>

type_synonym Values = "(string \<times> string) list"

record BRIARService =
  predictor_path :: string
  rec_model_path :: string
  options :: "Values option"

definition DEFAULT_WEIGHTS_DIR :: string where
  "DEFAULT_WEIGHTS_DIR = ''weights''"

definition DEFAULT_PREDICTOR_NAME :: string where
  "DEFAULT_PREDICTOR_NAME = ''predictor_model.dat''"

definition DEFAULT_REC_MODEL_NAME :: string where
  "DEFAULT_REC_MODEL_NAME = ''recognition_model.dat''"

definition briar_dir_message :: string where
  "briar_dir_message =
     ''The default Briar directory is not specified in your '' @
     ''system'' @ [CHR 0x27] @ ''s environment variables.''"

text \<open>
  \<open>__init__(self, options=None, database_path="databases")\<close>. The result is the
  constructed instance or the exception raised. The subscript \<open>os.environ['BRIAR_DIR']\<close>
  is only reached when the key is present, so it cannot raise \<open>KeyError\<close>.
\<close>

definition BRIARService_init ::
  "world \<Rightarrow> Values option \<Rightarrow> string \<Rightarrow> error + BRIARService" where
  "BRIARService_init w opts database_path =
     (case environ w ''BRIAR_DIR'' of
        None \<Rightarrow> Inl (EnvironmentError briar_dir_message)
      | Some briar_dir \<Rightarrow>
          Inr \<lparr>predictor_path =
                 os_path_join briar_dir [DEFAULT_WEIGHTS_DIR, DEFAULT_PREDICTOR_NAME],
               rec_model_path =
                 os_path_join briar_dir [DEFAULT_WEIGHTS_DIR, DEFAULT_REC_MODEL_NAME],
               options = opts\<rparr>)"

definition get_api_version :: "BRIARService \<Rightarrow> 'req \<Rightarrow> 'ctx \<Rightarrow> APIVersion call" where
  "get_api_version self request context =
     returns \<lparr>major = 1, minor = 2, patch = 3\<rparr>"

definition status :: "BRIARService \<Rightarrow> 'req \<Rightarrow> 'ctx \<Rightarrow> StatusReply call" where
  "status self request context =
     returns \<lparr>developer_name = ''[devname-here]'',
              service_name = ''This is a service'',
              version = \<lparr>major = 1, minor = 2, patch = 3\<rparr>,
              status_of = READY\<rparr>"

text \<open>
  The three stream handlers are plain functions, not generators: the exception is raised
  when the handler is called, before any item of \<open>req_iter\<close> is taken. The handler
  \<open>extract\<close> is named \<open>extract_rpc\<close> here, \<open>extract\<close> being a reserved word.
\<close>

definition detect :: "BRIARService \<Rightarrow> 'req list \<Rightarrow> 'ctx \<Rightarrow> 'rep call" where
  "detect self req_iter context = raises NotImplementedError"

definition extract_rpc :: "BRIARService \<Rightarrow> 'req list \<Rightarrow> 'ctx \<Rightarrow> 'rep call" where
  "extract_rpc self req_iter context = raises NotImplementedError"

definition enroll :: "BRIARService \<Rightarrow> 'req list \<Rightarrow> 'ctx \<Rightarrow> 'rep call" where
  "enroll self req_iter context =
     print_then ''Enrolling...'' (raises NotImplementedError)"

definition verify :: "BRIARService \<Rightarrow> 'req \<Rightarrow> 'ctx \<Rightarrow> 'rep call" where
  "verify self request context =
     print_then ''Verifying template matches'' (raises NotImplementedError)"

definition search :: "BRIARService \<Rightarrow> 'req \<Rightarrow> 'ctx \<Rightarrow> 'rep call" where
  "search self request context =
     print_then ''Searching Templates'' (raises NotImplementedError)"

definition cluster :: "BRIARService \<Rightarrow> 'req \<Rightarrow> 'ctx \<Rightarrow> 'rep call" where
  "cluster self request context = raises NotImplementedError"

definition enhance :: "BRIARService \<Rightarrow> 'req \<Rightarrow> 'ctx \<Rightarrow> 'rep call" where
  "enhance self request context = raises NotImplementedError"

definition database_create :: "BRIARService \<Rightarrow> 'req \<Rightarrow> 'ctx \<Rightarrow> 'rep call" where
  "database_create self request context = raises NotImplementedError"

definition database_load :: "BRIARService \<Rightarrow> 'req \<Rightarrow> 'ctx \<Rightarrow> 'rep call" where
  "database_load self request context = raises NotImplementedError"

definition database_insert :: "BRIARService \<Rightarrow> 'req \<Rightarrow> 'ctx \<Rightarrow> 'rep call" where
  "database_insert self request context = raises NotImplementedError"

definition database_retrieve :: "BRIARService \<Rightarrow> 'req \<Rightarrow> 'ctx \<Rightarrow> 'rep call" where
  "database_retrieve self request context = raises NotImplementedError"

definition database_remove_templates :: "BRIARService \<Rightarrow> 'req \<Rightarrow> 'ctx \<Rightarrow> 'rep call" where
  "database_remove_templates self request context = raises NotImplementedError"

definition database_names :: "BRIARService \<Rightarrow> 'req \<Rightarrow> 'ctx \<Rightarrow> 'rep call" where
  "database_names self request context = raises NotImplementedError"

definition database_list_templates :: "BRIARService \<Rightarrow> 'req \<Rightarrow> 'ctx \<Rightarrow> 'rep call" where
  "database_list_templates self request context = raises NotImplementedError"

definition database_finalize :: "BRIARService \<Rightarrow> 'req \<Rightarrow> 'ctx \<Rightarrow> 'rep call" where
  "database_finalize self request context = raises NotImplementedError"

subsection \<open>\<open>serve\<close>\<close>

text \<open>
  \<open>futures.ThreadPoolExecutor(max_workers=10)\<close> and the object \<open>grpc.server\<close> builds.
  \<open>grpc.server(thread_pool, handlers=None, interceptors=None, options=None,
  maximum_concurrent_rpcs=None, ...)\<close>: an argument that the call leaves out keeps its
  default, so the server \<open>serve\<close> builds has \<open>maximum_concurrent_rpcs = None\<close>.
\<close>

record ThreadPoolExecutor =
  max_workers :: nat

record Server =
  thread_pool :: ThreadPoolExecutor
  server_options :: "(string \<times> nat) list"
  maximum_concurrent_rpcs :: "nat option"
  servicers :: "BRIARService list"
  ports :: "string list"
  started :: bool

definition grpc_server :: "ThreadPoolExecutor \<Rightarrow> (string \<times> nat) list \<Rightarrow> Server" where
  "grpc_server pool opts =
     \<lparr>thread_pool = pool, server_options = opts, maximum_concurrent_rpcs = None,
      servicers = [], ports = [], started = False\<rparr>"

definition add_BRIARServiceServicer_to_server :: "BRIARService \<Rightarrow> Server \<Rightarrow> Server" where
  "add_BRIARServiceServicer_to_server servicer srv =
     srv\<lparr>servicers := servicers srv @ [servicer]\<rparr>"

definition add_insecure_port :: "string \<Rightarrow> Server \<Rightarrow> Server" where
  "add_insecure_port address srv = srv\<lparr>ports := ports srv @ [address]\<rparr>"

definition start :: "Server \<Rightarrow> Server" where
  "start srv = srv\<lparr>started := True\<rparr>"

text \<open>
  The state of a running \<open>serve\<close>: the server object, the lines printed, and how many
  times the main thread has slept for a tenth of a second.
\<close>

record serve_state =
  server :: Server
  stdout :: "string list"
  slept :: nat

text \<open>
  The statements of \<open>serve\<close> before its loop. \<open>DEFAULT_SERVE_PORT\<close> is imported from
  the package \<open>briar\<close> and is a parameter here. \<open>BRIARService()\<close> is called with its
  defaults, and its exception, if any, ends \<open>serve\<close> before the server is started.
\<close>

definition serve_startup :: "world \<Rightarrow> string \<Rightarrow> error + serve_state" where
  "serve_startup w DEFAULT_SERVE_PORT =
     (let srv = grpc_server \<lparr>max_workers = 10\<rparr>
                  [(''grpc.max_send_message_length'', 20000000),
                   (''grpc.max_receive_message_length'', 20000000)]
      in case BRIARService_init w None ''databases'' of
           Inl e \<Rightarrow> Inl e
         | Inr servicer \<Rightarrow>
             Inr \<lparr>server = start (add_insecure_port DEFAULT_SERVE_PORT
                              (add_BRIARServiceServicer_to_server servicer srv)),
                  stdout = [''Service Started.  ''],
                  slept = 0\<rparr>)"

text \<open>
  \<open>while True: time.sleep(0.1)\<close> has no exit: \<open>serve\<close> never returns. \<open>serve_loop n\<close>
  is the state after \<open>n\<close> iterations, and \<open>serve w port n\<close> is \<open>serve\<close> observed after
  \<open>n\<close> iterations of its loop (or the exception that ended it at startup).
\<close>

definition time_sleep :: "serve_state \<Rightarrow> serve_state" where
  "time_sleep st = st\<lparr>slept := Suc (slept st)\<rparr>"

fun serve_loop :: "nat \<Rightarrow> serve_state \<Rightarrow> serve_state" where
  "serve_loop 0 st = st"
| "serve_loop (Suc n) st = serve_loop n (time_sleep st)"

definition serve :: "world \<Rightarrow> string \<Rightarrow> nat \<Rightarrow> error + serve_state" where
  "serve w DEFAULT_SERVE_PORT n =
     (case serve_startup w DEFAULT_SERVE_PORT of
        Inl e \<Rightarrow> Inl e
      | Inr st \<Rightarrow> Inr (serve_loop n st))"

subsection \<open>Admission of an incoming invocation by the libraries\<close>

text \<open>
  What happens to an invocation that arrives at a started server is decided by the
  libraries \<open>grpc\<close> and \<open>concurrent.futures\<close>, not by code of the module; the module only
  chooses the server's parameters. As the libraries document it: with
  \<open>maximum_concurrent_rpcs = Some m\<close> an invocation arriving while \<open>m\<close> are active is
  rejected with the status RESOURCE\_EXHAUSTED, and with \<open>None\<close> there is no limit; an
  admitted invocation is submitted to the thread pool, which runs it at once when fewer
  than \<open>max_workers\<close> workers are busy and keeps it in its (unbounded) work queue until a
  worker is free otherwise.
\<close>

datatype admission = Rejected error | Started | Queued

definition submit :: "ThreadPoolExecutor \<Rightarrow> nat \<Rightarrow> admission" where
  "submit pool busy = (if busy < max_workers pool then Started else Queued)"

definition handle_call :: "Server \<Rightarrow> nat \<Rightarrow> admission" where
  "handle_call srv active =
     (case maximum_concurrent_rpcs srv of
        Some m \<Rightarrow> if m \<le> active then Rejected ResourceExhausted
                  else submit (thread_pool srv) active
      | None \<Rightarrow> submit (thread_pool srv) active)"

subsection \<open>Two environments and the instance built in one of them\<close>

definition world_unset :: world where
  "world_unset = \<lparr>environ = Map.empty, directories = {}\<rparr>"

definition world_set :: world where
  "world_set = \<lparr>environ = [''BRIAR_DIR'' \<mapsto> ''/opt/briar''], directories = {}\<rparr>"

definition service0 :: BRIARService where
  "service0 = \<lparr>predictor_path = ''/opt/briar/weights/predictor_model.dat'',
               rec_model_path = ''/opt/briar/weights/recognition_model.dat'',
               options = None\<rparr>"

text \<open>A handler invocation whose exception leaves the handler with no reply handed back.\<close>

definition propagates :: "error \<Rightarrow> 'rep call \<Rightarrow> bool" where
  "propagates e c \<longleftrightarrow> raised c = Some e \<and> replies c = []"

section \<open>Properties\<close>

subsection \<open>Auxiliary facts\<close>

lemmas handler_defs =
  detect_def extract_rpc_def enroll_def verify_def search_def cluster_def enhance_def
  database_create_def database_load_def database_insert_def database_retrieve_def
  database_remove_templates_def database_names_def database_list_templates_def
  database_finalize_def

lemma raised_raises [simp]: "raised (raises e) = Some e"
  by (simp add: raises_def)

lemma replies_raises [simp]: "replies (raises e) = []"
  by (simp add: raises_def)

lemma raised_returns [simp]: "raised (returns r) = None"
  by (simp add: returns_def)

lemma replies_returns [simp]: "replies (returns r) = [r]"
  by (simp add: returns_def)

lemma raised_print_then [simp]: "raised (print_then l c) = raised c"
  by (simp add: print_then_def)

lemma replies_print_then [simp]: "replies (print_then l c) = replies c"
  by (simp add: print_then_def)

text \<open>
  What \<open>os.path.join\<close> makes of a root and the two default components: a separator is
  put after the root unless the root is empty or already ends with one.
\<close>

lemma join_weights_predictor:
  "os_path_join r [DEFAULT_WEIGHTS_DIR, DEFAULT_PREDICTOR_NAME] =
     (if r = [] \<or> last r = CHR ''/'' then r @ ''weights/predictor_model.dat''
      else r @ ''/weights/predictor_model.dat'')"
  by (simp add: os_path_join_def DEFAULT_WEIGHTS_DIR_def DEFAULT_PREDICTOR_NAME_def
      join_component_def sep_def)

lemma join_weights_rec_model:
  "os_path_join r [DEFAULT_WEIGHTS_DIR, DEFAULT_REC_MODEL_NAME] =
     (if r = [] \<or> last r = CHR ''/'' then r @ ''weights/recognition_model.dat''
      else r @ ''/weights/recognition_model.dat'')"
  by (simp add: os_path_join_def DEFAULT_WEIGHTS_DIR_def DEFAULT_REC_MODEL_NAME_def
      join_component_def sep_def)

lemma init_unset:
  "environ w ''BRIAR_DIR'' = None \<Longrightarrow>
   BRIARService_init w opts database_path = Inl (EnvironmentError briar_dir_message)"
  by (simp add: BRIARService_init_def)

lemma init_set:
  "environ w ''BRIAR_DIR'' = Some r \<Longrightarrow>
   BRIARService_init w opts database_path =
     Inr \<lparr>predictor_path = os_path_join r [DEFAULT_WEIGHTS_DIR, DEFAULT_PREDICTOR_NAME],
          rec_model_path = os_path_join r [DEFAULT_WEIGHTS_DIR, DEFAULT_REC_MODEL_NAME],
          options = opts\<rparr>"
  by (simp add: BRIARService_init_def)

lemma init_ignores_directories:
  "BRIARService_init (w\<lparr>directories := D\<rparr>) opts database_path =
   BRIARService_init w opts database_path"
  by (simp add: BRIARService_init_def)

lemma init_world_set: "BRIARService_init world_set None ''databases'' = Inr service0"
  by (simp add: BRIARService_init_def world_set_def service0_def
      join_weights_predictor join_weights_rec_model)

lemma server_time_sleep [simp]: "server (time_sleep st) = server st"
  by (simp add: time_sleep_def)

lemma server_serve_loop: "server (serve_loop n st) = server st"
  by (induction n arbitrary: st) simp_all

lemma slept_serve_loop: "slept (serve_loop n st) = slept st + n"
  by (induction n arbitrary: st) (simp_all add: time_sleep_def)

lemma serve_startup_set:
  assumes "environ w ''BRIAR_DIR'' = Some r"
  shows "\<exists>servicer. BRIARService_init w None ''databases'' = Inr servicer \<and>
     serve_startup w port =
       Inr \<lparr>server = \<lparr>thread_pool = \<lparr>max_workers = 10\<rparr>,
                      server_options = [(''grpc.max_send_message_length'', 20000000),
                                        (''grpc.max_receive_message_length'', 20000000)],
                      maximum_concurrent_rpcs = None,
                      servicers = [servicer], ports = [port], started = True\<rparr>,
            stdout = [''Service Started.  ''], slept = 0\<rparr>"
  using assms
  by (simp add: serve_startup_def init_set grpc_server_def start_def add_insecure_port_def
      add_BRIARServiceServicer_to_server_def)

lemma serve_startup_server:
  assumes "serve_startup w port = Inr st"
  shows "thread_pool (server st) = \<lparr>max_workers = 10\<rparr>"
    and "server_options (server st) = [(''grpc.max_send_message_length'', 20000000),
                                       (''grpc.max_receive_message_length'', 20000000)]"
    and "maximum_concurrent_rpcs (server st) = None"
    and "started (server st)"
  using assms
  by (auto simp add: serve_startup_def grpc_server_def start_def add_insecure_port_def
      add_BRIARServiceServicer_to_server_def Let_def split: sum.splits)

text \<open>Without \<open>BRIAR_DIR\<close>, \<open>serve\<close> ends with the constructor's exception.\<close>

lemma serve_unset:
  "environ w ''BRIAR_DIR'' = None \<Longrightarrow>
   serve w port n = Inl (EnvironmentError briar_dir_message)"
  by (simp add: serve_def serve_startup_def init_unset)

lemma serve_Inr:
  "serve w port n = Inr st \<longleftrightarrow> (\<exists>st0. serve_startup w port = Inr st0 \<and> st = serve_loop n st0)"
  by (auto simp add: serve_def split: sum.splits)

subsection \<open>Construction (claims C1 and C10)\<close>

text \<open>
  Claim C1, as stated, fails where it says that construction fails when the database
  storage directory is absent: in an environment with \<open>BRIAR_DIR\<close> set and no directory
  at all on the file system (so none at the default \<open>database_path\<close>), construction
  succeeds.
\<close>

theorem init_database_directory_counterexample:
  "''databases'' \<notin> directories world_set
   \<and> \<not> isl (BRIARService_init world_set None ''databases'')
   \<and> BRIARService_init world_set None ''databases'' = Inr service0"
  by (simp add: init_world_set) (simp add: world_set_def)

text \<open>
  Claim C1, amended: constructing the service fails with \<open>EnvironmentError\<close> when
  \<open>BRIAR_DIR\<close> is not in the environment, and succeeds when it is, whatever the
  \<open>database_path\<close> argument is and whichever directories exist (the database storage
  directory is not checked). The failure belongs to construction: no request handler ends
  with \<open>EnvironmentError\<close>, for any request.
\<close>

theorem init_fails_iff_briar_dir_unset:
  "(environ w ''BRIAR_DIR'' = None \<longrightarrow>
      BRIARService_init w opts database_path = Inl (EnvironmentError briar_dir_message))
   \<and> (environ w ''BRIAR_DIR'' \<noteq> None \<longrightarrow>
        (\<exists>s. BRIARService_init w opts database_path = Inr s
             \<and> BRIARService_init (w\<lparr>directories := D\<rparr>) opts database_path' = Inr s))
   \<and> raised (get_api_version self request context) \<noteq> Some (EnvironmentError m)
   \<and> raised (status self request context) \<noteq> Some (EnvironmentError m)
   \<and> raised (detect self req_iter context) \<noteq> Some (EnvironmentError m)
   \<and> raised (extract_rpc self req_iter context) \<noteq> Some (EnvironmentError m)
   \<and> raised (enroll self req_iter context) \<noteq> Some (EnvironmentError m)
   \<and> raised (verify self request context) \<noteq> Some (EnvironmentError m)
   \<and> raised (search self request context) \<noteq> Some (EnvironmentError m)
   \<and> raised (cluster self request context) \<noteq> Some (EnvironmentError m)
   \<and> raised (enhance self request context) \<noteq> Some (EnvironmentError m)
   \<and> raised (database_create self request context) \<noteq> Some (EnvironmentError m)
   \<and> raised (database_load self request context) \<noteq> Some (EnvironmentError m)
   \<and> raised (database_insert self request context) \<noteq> Some (EnvironmentError m)
   \<and> raised (database_retrieve self request context) \<noteq> Some (EnvironmentError m)
   \<and> raised (database_remove_templates self request context) \<noteq> Some (EnvironmentError m)
   \<and> raised (database_names self request context) \<noteq> Some (EnvironmentError m)
   \<and> raised (database_list_templates self request context) \<noteq> Some (EnvironmentError m)
   \<and> raised (database_finalize self request context) \<noteq> Some (EnvironmentError m)"
proof -
  have absent: "environ w ''BRIAR_DIR'' = None \<longrightarrow>
      BRIARService_init w opts database_path = Inl (EnvironmentError briar_dir_message)"
    by (simp add: init_unset)
  have present: "environ w ''BRIAR_DIR'' \<noteq> None \<longrightarrow>
        (\<exists>s. BRIARService_init w opts database_path = Inr s
             \<and> BRIARService_init (w\<lparr>directories := D\<rparr>) opts database_path' = Inr s)"
    by (auto simp add: init_set init_ignores_directories)
  have requests: "raised (get_api_version self request context) \<noteq> Some (EnvironmentError m)"
    "raised (status self request context) \<noteq> Some (EnvironmentError m)"
    by (simp_all add: get_api_version_def status_def)
  show ?thesis
    using absent present requests by (simp add: handler_defs)
qed

text \<open>
  Both branches at concrete environments: one without \<open>BRIAR_DIR\<close>, and one with it,
  where the result is the same with another \<open>database_path\<close> and another file system.
\<close>

theorem init_fails_iff_briar_dir_unset_witness:
  "BRIARService_init world_unset None ''databases'' = Inl (EnvironmentError briar_dir_message)
   \<and> (\<exists>s. BRIARService_init world_set None ''databases'' = Inr s
          \<and> BRIARService_init (world_set\<lparr>directories := {''databases''}\<rparr>) None ''elsewhere''
              = Inr s)"
proof -
  have unset: "environ world_unset ''BRIAR_DIR'' = None"
    by (simp add: world_unset_def)
  have set: "environ world_set ''BRIAR_DIR'' \<noteq> None"
    by (simp add: world_set_def)
  from init_fails_iff_briar_dir_unset
         [of world_unset None "''databases''" "{}" "''databases''"
             service0 "0::nat" "()" "''x''" "[]::nat list"]
       unset
  have a: "BRIARService_init world_unset None ''databases'' =
             Inl (EnvironmentError briar_dir_message)"
    by blast
  from init_fails_iff_briar_dir_unset
         [of world_set None "''databases''" "{''databases''}" "''elsewhere''"
             service0 "0::nat" "()" "''x''" "[]::nat list"]
       set
  have b: "\<exists>s. BRIARService_init world_set None ''databases'' = Inr s
          \<and> BRIARService_init (world_set\<lparr>directories := {''databases''}\<rparr>) None ''elsewhere''
              = Inr s"
    by blast
  from a b show ?thesis by blast
qed



subsection \<open>The implemented handlers (claims C3, C4 and C9)\<close>

text \<open>
  Claim C3: for every request, \<open>get_api_version\<close> returns the same version triple,
  major 1, minor 2, patch 3; it is a constant function of its inputs.
\<close>

theorem get_api_version_fixed:
  "get_api_version self request context = get_api_version self' request' context'
   \<and> replies (get_api_version self request context) = [\<lparr>major = 1, minor = 2, patch = 3\<rparr>]
   \<and> raised (get_api_version self request context) = None"
  by (simp add: get_api_version_def)

text \<open>
  Claim C4: for every request, \<open>status\<close> raises no exception and returns one reply, which
  carries a liveness value among READY, DEGRADED and UNAVAILABLE (it is READY) and the
  service metadata: developer name, service name and version.
\<close>

theorem status_never_fails:
  "raised (status self request context) = None
   \<and> (\<exists>r. replies (status self request context) = [r]
          \<and> status_of r \<in> {READY, DEGRADED, UNAVAILABLE}
          \<and> status_of r = READY
          \<and> developer_name r = ''[devname-here]''
          \<and> service_name r = ''This is a service''
          \<and> version r = \<lparr>major = 1, minor = 2, patch = 3\<rparr>)"
  by (simp add: status_def)

text \<open>
  Claim C9: the version carried by every reply of \<open>status\<close> is the version that
  \<open>get_api_version\<close> returns, whatever the two requests are.
\<close>

theorem status_version_is_api_version:
  "replies (status self request context) \<noteq> []
   \<and> map version (replies (status self request context))
       = replies (get_api_version self' request' context')"
  by (simp add: status_def get_api_version_def)

subsection \<open>The unimplemented handlers (claims C2, C5 and C6)\<close>

text \<open>
  Claim C2, as stated, fails where it says that the \<open>NotImplementedError\<close> condition is
  returned to the caller as a reply: \<open>verify\<close> hands back no reply, and the exception
  leaves the handler.
\<close>

theorem unimplemented_reply_counterexample:
  "raised (verify service0 (0::nat) () :: error call) = Some NotImplementedError
   \<and> replies (verify service0 (0::nat) () :: error call) = []
   \<and> \<not> (raised (verify service0 (0::nat) () :: error call) = None
          \<and> replies (verify service0 (0::nat) () :: error call) = [NotImplementedError])"
  by (simp add: verify_def)

text \<open>
  Claim C2, amended: for every declared operation whose handler is unimplemented (detect,
  extract, enroll, verify, search, cluster, enhance and the eight database operations),
  invoking the handler raises \<open>NotImplementedError\<close>, uniformly for every request; the
  exception leaves the handler and no reply is handed back.
\<close>

theorem unimplemented_handlers_raise:
  "propagates NotImplementedError (detect self req_iter context)
   \<and> propagates NotImplementedError (extract_rpc self req_iter context)
   \<and> propagates NotImplementedError (enroll self req_iter context)
   \<and> propagates NotImplementedError (verify self request context)
   \<and> propagates NotImplementedError (search self request context)
   \<and> propagates NotImplementedError (cluster self request context)
   \<and> propagates NotImplementedError (enhance self request context)
   \<and> propagates NotImplementedError (database_create self request context)
   \<and> propagates NotImplementedError (database_load self request context)
   \<and> propagates NotImplementedError (database_insert self request context)
   \<and> propagates NotImplementedError (database_retrieve self request context)
   \<and> propagates NotImplementedError (database_remove_templates self request context)
   \<and> propagates NotImplementedError (database_names self request context)
   \<and> propagates NotImplementedError (database_list_templates self request context)
   \<and> propagates NotImplementedError (database_finalize self request context)"
  by (simp add: propagates_def handler_defs)

text \<open>
  Claim C5, as stated, fails: on a stream whose items have the sequence indices 0, 1 and 3
  (an item is its index here), \<open>detect\<close> does not emit the replies for items 0 and 1 and
  then abort with \<open>SequenceViolation\<close>; it emits no reply and raises
  \<open>NotImplementedError\<close>.
\<close>

theorem sequence_gap_counterexample:
  "\<not> (length (replies (detect service0 [0, 1, 3 :: nat] () :: nat call)) = 2
       \<and> raised (detect service0 [0, 1, 3 :: nat] () :: nat call) = Some SequenceViolation)
   \<and> replies (detect service0 [0, 1, 3 :: nat] () :: nat call) = []
   \<and> raised (detect service0 [0, 1, 3 :: nat] () :: nat call) = Some NotImplementedError"
  by (simp add: detect_def)

text \<open>
  Claim C5, amended: for every streaming operation (detect, extract, enroll), submitting a
  stream of items whose sequence indices are 0, 1, 3 ends the invocation with
  \<open>NotImplementedError\<close>, not with \<open>SequenceViolation\<close>, before any reply has been
  emitted; no reply is produced for index 3, nor for indices 0 and 1. \<open>index\<close> is
  whatever reads the sequence index off an item.
\<close>

theorem sequence_gap_not_implemented:
  assumes "map index req_iter = [0, 1, 3 :: nat]"
  shows "propagates NotImplementedError (detect self req_iter context)
         \<and> propagates NotImplementedError (extract_rpc self req_iter context)
         \<and> propagates NotImplementedError (enroll self req_iter context)
         \<and> raised (detect self req_iter context) \<noteq> Some SequenceViolation
         \<and> raised (extract_rpc self req_iter context) \<noteq> Some SequenceViolation
         \<and> raised (enroll self req_iter context) \<noteq> Some SequenceViolation"
  by (simp add: propagates_def detect_def extract_rpc_def enroll_def)

theorem sequence_gap_not_implemented_witness:
  "map id [0, 1, 3 :: nat] = [0, 1, 3]
   \<and> propagates NotImplementedError (detect service0 [0, 1, 3 :: nat] () :: nat call)
   \<and> propagates NotImplementedError (extract_rpc service0 [0, 1, 3 :: nat] () :: nat call)
   \<and> propagates NotImplementedError (enroll service0 [0, 1, 3 :: nat] () :: nat call)"
proof -
  have h: "map id [0, 1, 3 :: nat] = [0, 1, 3]" by simp
  from sequence_gap_not_implemented [OF h, of service0 "()"]
  show ?thesis using h by blast
qed

text \<open>
  Claim C6, as stated, fails: on a stream of three items of which exactly the second
  causes an engine failure (an item is the flag that says so, and so is a reply),
  \<open>extract\<close> does not give three replies with one marked failed; it gives none and
  raises \<open>NotImplementedError\<close>.
\<close>

theorem extract_partial_failure_counterexample:
  "length [False, True, False] = 3
   \<and> length (filter id [False, True, False]) = 1
   \<and> \<not> (length (replies (extract_rpc service0 [False, True, False] () :: bool call)) = 3
          \<and> length (filter id
                (replies (extract_rpc service0 [False, True, False] () :: bool call))) = 1)
   \<and> replies (extract_rpc service0 [False, True, False] () :: bool call) = []
   \<and> raised (extract_rpc service0 [False, True, False] () :: bool call)
       = Some NotImplementedError"
  by (simp add: extract_rpc_def)

text \<open>
  Claim C6, amended: for every 3-item input stream to extract in which exactly one item
  would cause a per-item engine failure, the invocation raises \<open>NotImplementedError\<close>
  when the handler is called; the caller receives no reply (not three), none marked
  failed, and none of the three items is processed. \<open>fails\<close> says which items cause an
  engine failure and \<open>marked_failed\<close> which replies are marked failed.
\<close>

theorem extract_three_items_not_implemented:
  assumes "length req_iter = 3" and "length (filter fails req_iter) = 1"
  shows "replies (extract_rpc self req_iter context) = []
         \<and> length (filter marked_failed (replies (extract_rpc self req_iter context))) = 0
         \<and> raised (extract_rpc self req_iter context) = Some NotImplementedError"
  by (simp add: extract_rpc_def)

theorem extract_three_items_not_implemented_witness:
  "length [False, True, False] = 3
   \<and> length (filter id [False, True, False]) = 1
   \<and> replies (extract_rpc service0 [False, True, False] () :: bool call) = []
   \<and> raised (extract_rpc service0 [False, True, False] () :: bool call)
       = Some NotImplementedError"
proof -
  have h1: "length [False, True, False] = 3" by simp
  have h2: "length (filter id [False, True, False]) = 1" by simp
  from extract_three_items_not_implemented [OF h1 h2, of service0 "()" id]
  show ?thesis using h1 h2 by blast
qed

subsection \<open>The server (claims C7 and C8)\<close>

text \<open>
  Claim C7, as stated, fails: at the server \<open>serve\<close> starts, with as many invocations
  active as the pool has workers, one more invocation is not rejected with
  \<open>ResourceExhausted\<close>; it is queued.
\<close>

theorem admission_counterexample:
  "(case serve_startup world_set ''[::]:50051'' of
      Inl e \<Rightarrow> Rejected e
    | Inr st \<Rightarrow> handle_call (server st) (max_workers (thread_pool (server st)))) = Queued"
  by (simp add: serve_startup_def init_world_set grpc_server_def start_def
      add_insecure_port_def add_BRIARServiceServicer_to_server_def handle_call_def
      submit_def)

text \<open>
  Claim C7, amended: \<open>serve\<close> sets no limit on concurrent invocations
  (\<open>maximum_concurrent_rpcs\<close> keeps its default, no limit) and only bounds the worker
  pool at 10, so at any moment of its run an arriving invocation is never rejected with
  \<open>ResourceExhausted\<close>: it is started when fewer than 10 are active and queued until a
  worker is free otherwise.
\<close>

theorem serve_never_rejects:
  assumes "serve w port n = Inr st"
  shows "maximum_concurrent_rpcs (server st) = None
         \<and> handle_call (server st) active \<noteq> Rejected ResourceExhausted
         \<and> handle_call (server st) active = (if active < 10 then Started else Queued)"
proof -
  from assms obtain st0
    where st0: "serve_startup w port = Inr st0" and st: "st = serve_loop n st0"
    by (auto simp add: serve_Inr)
  have same: "server st = server st0"
    by (simp add: st server_serve_loop)
  show ?thesis
    using serve_startup_server(1,3) [OF st0]
    by (simp add: same handle_call_def submit_def)
qed

theorem serve_never_rejects_witness:
  "\<exists>st. serve world_set ''[::]:50051'' 0 = Inr st
        \<and> handle_call (server st) 10 = Queued
        \<and> handle_call (server st) 9 = Started"
proof -
  have env: "environ world_set ''BRIAR_DIR'' = Some ''/opt/briar''"
    by (simp add: world_set_def)
  from serve_startup_set [OF env, of "''[::]:50051''"]
  obtain st0 where st0: "serve_startup world_set ''[::]:50051'' = Inr st0"
    by auto
  have run: "serve world_set ''[::]:50051'' 0 = Inr st0"
    by (simp add: serve_def st0)
  from serve_never_rejects [OF run, of 10] serve_never_rejects [OF run, of 9] run
  show ?thesis
    by auto
qed

text \<open>
  Claim C8: \<open>serve\<close> fixes the server's configuration at startup, a worker pool bounded
  at 10 workers and maximum outbound (send) and inbound (receive) message sizes of
  20,000,000 bytes each, and after any number of iterations of its loop the server
  object is the one built at startup: none of these values is mutated while serving.
\<close>

theorem serve_configuration_fixed:
  assumes "serve w port n = Inr st"
  shows "max_workers (thread_pool (server st)) = 10
         \<and> map_of (server_options (server st)) ''grpc.max_send_message_length''
             = Some 20000000
         \<and> map_of (server_options (server st)) ''grpc.max_receive_message_length''
             = Some 20000000
         \<and> (\<exists>st0. serve w port 0 = Inr st0 \<and> server st = server st0)"
proof -
  from assms obtain st0
    where st0: "serve_startup w port = Inr st0" and st: "st = serve_loop n st0"
    by (auto simp add: serve_Inr)
  have same: "server st = server st0"
    by (simp add: st server_serve_loop)
  have zero: "serve w port 0 = Inr st0"
    by (simp add: serve_def st0)
  show ?thesis
    using serve_startup_server(1,2) [OF st0] same zero by simp
qed

theorem serve_configuration_fixed_witness:
  "\<exists>st. serve world_set ''[::]:50051'' 3 = Inr st
        \<and> slept st = 3
        \<and> max_workers (thread_pool (server st)) = 10
        \<and> map_of (server_options (server st)) ''grpc.max_send_message_length''
            = Some 20000000
        \<and> map_of (server_options (server st)) ''grpc.max_receive_message_length''
            = Some 20000000"
proof -
  have env: "environ world_set ''BRIAR_DIR'' = Some ''/opt/briar''"
    by (simp add: world_set_def)
  from serve_startup_set [OF env, of "''[::]:50051''"]
  obtain st0
    where st0: "serve_startup world_set ''[::]:50051'' = Inr st0" and z: "slept st0 = 0"
    by auto
  have run: "serve world_set ''[::]:50051'' 3 = Inr (serve_loop 3 st0)"
    by (simp add: serve_def st0)
  have "slept (serve_loop 3 st0) = 3"
    by (simp add: slept_serve_loop z)
  with run serve_configuration_fixed [OF run] show ?thesis
    by blast
qed

end
